theory Spec2Isabelle
  imports Complex_Main
begin

section \<open>Common values\<close>

text \<open>
  Exceptions of the Python sources are values of the type \<open>error\<close>; a function that can
  raise returns \<open>error + 'a\<close>, with \<open>Inl\<close> for the exception.
\<close>

datatype error =
    ValueError string
  | AttributeError
  | KeyError string
  | IndexError

section \<open>Token usage (ragas/llms/cost.py)\<close>

text \<open>
  \<open>TokenUsage\<close> is a pydantic model with two integer fields and an optional model name,
  whose default is \<open>None\<close>.
\<close>

record TokenUsage =
  input_tokens :: int
  output_tokens :: int
  model :: "string option"

text \<open>
  \<open>TokenUsage.__add__\<close>: the guard compares the two models; the sum is built from the two
  token counts only, so its \<open>model\<close> field takes the default \<open>None\<close>.
\<close>

definition TokenUsage_add :: "TokenUsage \<Rightarrow> TokenUsage \<Rightarrow> error + TokenUsage" where
  "TokenUsage_add self y =
     (if model self = model y \<or> (model self = None \<and> model y = None)
      then Inr \<lparr>input_tokens = input_tokens self + input_tokens y,
                output_tokens = output_tokens self + output_tokens y,
                model = None\<rparr>
      else Inl (ValueError ''Cannot add TokenUsage objects with different models''))"

definition is_same_model :: "TokenUsage \<Rightarrow> TokenUsage \<Rightarrow> bool" where
  "is_same_model self other =
     (if model self = None \<and> model other = None then True
      else if model self = model other then True
      else False)"

text \<open>\<open>TokenUsage.__eq__\<close>.\<close>

definition TokenUsage_eq :: "TokenUsage \<Rightarrow> TokenUsage \<Rightarrow> bool" where
  "TokenUsage_eq self other =
     (input_tokens self = input_tokens other
      \<and> output_tokens self = output_tokens other
      \<and> is_same_model self other)"

text \<open>
  An expression \<open>a + b\<close> whose left operand may already have raised: the exception of the
  operand propagates, otherwise \<open>__add__\<close> runs.
\<close>

definition add_l :: "error + TokenUsage \<Rightarrow> TokenUsage \<Rightarrow> error + TokenUsage" where
  "add_l r y = (case r of Inl e \<Rightarrow> Inl e | Inr s \<Rightarrow> TokenUsage_add s y)"

definition add_r :: "TokenUsage \<Rightarrow> error + TokenUsage \<Rightarrow> error + TokenUsage" where
  "add_r x r = (case r of Inl e \<Rightarrow> Inl e | Inr s \<Rightarrow> TokenUsage_add x s)"

section \<open>JSON values and Python numbers\<close>

text \<open>
  The value that the JSON loader hands to a metric is any JSON value. An object is kept
  as the list of its entries; a key is looked up with \<open>map_of\<close>.
\<close>

datatype json =
    JNull
  | JBool bool
  | JNum rat
  | JStr string
  | JArr "json list"
  | JObj "(string \<times> json) list"

text \<open>
  A score is a Python number or \<open>numpy.nan\<close>. The quotient of two integers is modelled by
  the exact rational, and \<open>nan\<close> absorbs every sum and quotient it takes part in.
\<close>

datatype number = Num rat | NaN

fun number_add :: "number \<Rightarrow> number \<Rightarrow> number" where
  "number_add (Num a) (Num b) = Num (a + b)"
| "number_add _ _ = NaN"

fun number_div :: "number \<Rightarrow> nat \<Rightarrow> number" where
  "number_div (Num a) n = Num (a / of_nat n)"
| "number_div NaN n = NaN"

text \<open>\<open>str.lower\<close>, on the letters \<open>A\<close> to \<open>Z\<close>.\<close>

definition lower_char :: "char \<Rightarrow> char" where
  "lower_char c =
     (let k = (of_char c :: nat)
      in if 65 \<le> k \<and> k \<le> 90 then char_of (k + 32) else c)"

definition lower :: "string \<Rightarrow> string" where
  "lower s = map lower_char s"

text \<open>\<open>d.get(key, default)\<close> on a Python dict.\<close>

definition map_get :: "('k \<rightharpoonup> 'v) \<Rightarrow> 'k \<Rightarrow> 'v \<Rightarrow> 'v" where
  "map_get m k d = (case m k of None \<Rightarrow> d | Some v \<Rightarrow> v)"

section \<open>Faithfulness scoring (ragas.metrics, module faithfulness)\<close>

definition verdict_score_map :: "string \<rightharpoonup> number" where
  "verdict_score_map = [''yes'' \<mapsto> Num 1, ''no'' \<mapsto> Num 0, ''null'' \<mapsto> NaN]"

text \<open>
  One term of the sum: \<open>verdict_score_map.get(dict.get("verdict", "").lower(), np.nan)\<close>.
  Only a dict has \<open>get\<close> and only a string has \<open>lower\<close>; on anything else the attribute
  access raises.
\<close>

definition verdict_value :: "json \<Rightarrow> error + number" where
  "verdict_value d =
     (case d of
        JObj kvs \<Rightarrow>
          (case map_get (map_of kvs) ''verdict'' (JStr []) of
             JStr s \<Rightarrow> Inr (map_get verdict_score_map (lower s) NaN)
           | _ \<Rightarrow> Inl AttributeError)
      | _ \<Rightarrow> Inl AttributeError)"

text \<open>\<open>sum\<close> over the generator: the terms are added from the left, starting at \<open>0\<close>.\<close>

fun sum_verdicts :: "number \<Rightarrow> json list \<Rightarrow> error + number" where
  "sum_verdicts acc [] = Inr acc"
| "sum_verdicts acc (d # ds) =
     (case verdict_value d of
        Inl e \<Rightarrow> Inl e
      | Inr x \<Rightarrow> sum_verdicts (number_add acc x) ds)"

text \<open>
  The last step of \<open>Faithfulness.ascore\<close> ("check the verdicts and compute the score"),
  from the value that \<open>json_loader.safe_load\<close> returned for the verification reply.
\<close>

definition ascore_score :: "json \<Rightarrow> error + number" where
  "ascore_score loaded =
     (let output = (case loaded of JArr xs \<Rightarrow> xs | _ \<Rightarrow> [])
      in case sum_verdicts (Num 0) output of
           Inl e \<Rightarrow> Inl e
         | Inr faithful_statements \<Rightarrow>
             (let num_statements = length output
              in if num_statements \<noteq> 0
                 then Inr (number_div faithful_statements num_statements)
                 else Inr NaN))"

text \<open>
  Vocabulary for the statements below: \<open>has_verdict d s\<close> says that the record \<open>d\<close> is an
  object whose verdict reads \<open>s\<close> (the empty text when the object has no verdict entry).
\<close>

definition has_verdict :: "json \<Rightarrow> string \<Rightarrow> bool" where
  "has_verdict d s =
     (case d of
        JObj kvs \<Rightarrow> (case map_of kvs ''verdict'' of None \<Rightarrow> s = [] | Some v \<Rightarrow> v = JStr s)
      | _ \<Rightarrow> False)"

text \<open>
  The scoring rule in the words of the specification: yes is 1, no is 0, a verdict that
  is not recognised adds 0 to the numerator, and the score is the sum over the number of
  verdicts returned.
\<close>

definition spec_verdict_term :: "string \<Rightarrow> rat" where
  "spec_verdict_term s = (if lower s = ''yes'' then 1 else 0)"

definition spec_faithfulness_score :: "string list \<Rightarrow> number" where
  "spec_faithfulness_score vs =
     (if vs = [] then NaN
      else Num (sum_list (map spec_verdict_term vs) / of_nat (length vs)))"

section \<open>Context recall scoring (ragas.metrics, module context recall)\<close>

record ContextRecallClassificationAnswer =
  statement :: string
  attributed :: bool
  reason :: string

text \<open>What \<open>_compute_score\<close> writes to the logger, in order.\<close>

datatype warning =
    CouldNotParse json
  | ParseError string
  | NoValidClassification

text \<open>
  The first step of \<open>_compute_score\<close>: a dict that has the key \<open>classification\<close> is replaced
  by the value under that key.
\<close>

definition classification_of :: "json \<Rightarrow> json" where
  "classification_of response =
     (case response of
        JObj kvs \<Rightarrow> (case map_of kvs ''classification'' of Some v \<Rightarrow> v | None \<Rightarrow> response)
      | _ \<Rightarrow> response)"

text \<open>
  \<open>ContextRecall._compute_score\<close>. The schema validation
  \<open>ContextRecallClassificationAnswers.parse_obj\<close> belongs to the pydantic library and is a
  parameter: it answers \<open>Inl err\<close> where pydantic raises \<open>ValidationError\<close>, and \<open>Inr\<close> of
  the validated answers otherwise. The result is the score and the warnings logged.
\<close>

definition compute_score ::
  "(json \<Rightarrow> string + ContextRecallClassificationAnswer list) \<Rightarrow> json
     \<Rightarrow> number \<times> warning list" where
  "compute_score parse_obj response =
     (let response = classification_of response
      in case parse_obj response of
           Inl err \<Rightarrow> (NaN, [CouldNotParse response, ParseError err])
         | Inr answers \<Rightarrow>
             (let response = map (\<lambda>item. if attributed item then 1 else 0 :: int) answers;
                  denom = length response;
                  numerator = sum_list response;
                  score = (if denom > 0 then Num (of_int numerator / of_nat denom) else NaN)
              in (score, if score = NaN then [NoValidClassification] else [])))"

section \<open>Language model wrapper (ragas/llms/base.py)\<close>

text \<open>
  A completion is a plain \<open>Generation\<close> or a \<open>ChatGeneration\<close>; the latter carries the
  response metadata of its message. \<open>LLMResult\<close> has one list of completions for each
  prompt of the request, the provider's output block, and the list of runs.
\<close>

datatype generation =
    Generation string
  | ChatGeneration string "(string \<times> json) list"

record LLMResult =
  generations :: "generation list list"
  llm_output :: "(string \<times> json) list option"
  run :: "string list option"

text \<open>The keyword arguments of one call of \<open>generate_prompt\<close>.\<close>

record kwargs =
  kw_prompts :: "string list"
  kw_n :: "int option"
  kw_temperature :: rat
  kw_stop :: "string list option"
  kw_callbacks :: "string list option"

text \<open>
  The wrapped langchain model: the names of the classes it is an instance of, and its
  two entry points. A call answers with a result or with the exception it raised.
\<close>

datatype provider_error = ProviderError string

record BaseLanguageModel =
  classes :: "string list"
  generate_prompt :: "kwargs \<Rightarrow> (error + provider_error) + LLMResult"
  agenerate_prompt :: "kwargs \<Rightarrow> (error + provider_error) + LLMResult"

definition MULTIPLE_COMPLETION_SUPPORTED :: "string list" where
  "MULTIPLE_COMPLETION_SUPPORTED =
     [''OpenAI'', ''ChatOpenAI'', ''AzureOpenAI'', ''AzureChatOpenAI'',
      ''ChatVertexAI'', ''VertexAI'']"

definition isinstance :: "BaseLanguageModel \<Rightarrow> string \<Rightarrow> bool" where
  "isinstance llm llm_type = (llm_type \<in> set (classes llm))"

fun supported_in :: "BaseLanguageModel \<Rightarrow> string list \<Rightarrow> bool" where
  "supported_in llm [] = False"
| "supported_in llm (llm_type # rest) =
     (if isinstance llm llm_type then True else supported_in llm rest)"

definition is_multiple_completion_supported :: "BaseLanguageModel \<Rightarrow> bool" where
  "is_multiple_completion_supported llm = supported_in llm MULTIPLE_COMPLETION_SUPPORTED"

text \<open>
  \<open>BaseRagasLLM.get_temperature\<close>. The literals \<open>0.3\<close> and \<open>1e-8\<close> are the rationals they
  denote.
\<close>

definition get_temperature :: "int \<Rightarrow> rat" where
  "get_temperature n = (if n > 1 then 3 / 10 else 1 / 10 ^ 8)"

text \<open>
  The request that \<open>generate_text\<close> and \<open>agenerate_text\<close> send: the temperature argument is
  overwritten first; a model on the list gets one prompt and \<open>n\<close>, any other model gets
  \<open>[prompt] * n\<close> and no \<open>n\<close>. In Python a list times a negative number is empty.
\<close>

definition request_kwargs ::
  "bool \<Rightarrow> string \<Rightarrow> int \<Rightarrow> rat \<Rightarrow> string list option \<Rightarrow> string list option \<Rightarrow> kwargs" where
  "request_kwargs supported prompt n temperature stop callbacks =
     (let temperature = get_temperature n
      in if supported
         then \<lparr>kw_prompts = [prompt], kw_n = Some n, kw_temperature = temperature,
               kw_stop = stop, kw_callbacks = callbacks\<rparr>
         else \<lparr>kw_prompts = replicate (nat n) prompt, kw_n = None,
               kw_temperature = temperature, kw_stop = stop, kw_callbacks = callbacks\<rparr>)"

text \<open>\<open>[g[0] for g in result.generations]\<close>: an empty inner list raises \<open>IndexError\<close>.\<close>

fun first_of_each :: "generation list list \<Rightarrow> error + generation list" where
  "first_of_each [] = Inr []"
| "first_of_each ([] # gs) = Inl IndexError"
| "first_of_each ((g # _) # gs) =
     (case first_of_each gs of Inl e \<Rightarrow> Inl e | Inr firsts \<Rightarrow> Inr (g # firsts))"

text \<open>
  What follows the provider's answer: a model on the list returns it as it is; for any
  other model the first completion of each per-prompt list is collected into one list,
  which replaces \<open>generations\<close> in the same result object.
\<close>

definition repack ::
  "bool \<Rightarrow> (error + provider_error) + LLMResult \<Rightarrow> (error + provider_error) + LLMResult" where
  "repack supported answer =
     (if supported then answer
      else case answer of
             Inl e \<Rightarrow> Inl e
           | Inr result \<Rightarrow>
               (case first_of_each (generations result) of
                  Inl e \<Rightarrow> Inl (Inl e)
                | Inr firsts \<Rightarrow> Inr (result\<lparr>generations := [firsts]\<rparr>)))"

text \<open>
  The bodies of \<open>LangchainLLMWrapper.generate_text\<close> and \<open>agenerate_text\<close>, that is one
  attempt of the call: an \<open>Inl\<close> here is the exception that ends one attempt. The \<open>retry\<close>
  decorator around the two bodies is modelled after them, in the subsection on the retry
  policy.
\<close>

definition generate_text ::
  "BaseLanguageModel \<Rightarrow> string \<Rightarrow> int \<Rightarrow> rat \<Rightarrow> string list option \<Rightarrow> string list option
     \<Rightarrow> (error + provider_error) + LLMResult" where
  "generate_text langchain_llm prompt n temperature stop callbacks =
     (let supported = is_multiple_completion_supported langchain_llm
      in repack supported
           (generate_prompt langchain_llm
              (request_kwargs supported prompt n temperature stop callbacks)))"

definition agenerate_text ::
  "BaseLanguageModel \<Rightarrow> string \<Rightarrow> int \<Rightarrow> rat \<Rightarrow> string list option \<Rightarrow> string list option
     \<Rightarrow> (error + provider_error) + LLMResult" where
  "agenerate_text langchain_llm prompt n temperature stop callbacks =
     (let supported = is_multiple_completion_supported langchain_llm
      in repack supported
           (agenerate_prompt langchain_llm
              (request_kwargs supported prompt n temperature stop callbacks)))"

text \<open>\<open>BaseRagasLLM.generate\<close> dispatches on \<open>is_async\<close>.\<close>

definition generate ::
  "BaseLanguageModel \<Rightarrow> string \<Rightarrow> int \<Rightarrow> rat \<Rightarrow> string list option \<Rightarrow> string list option
     \<Rightarrow> bool \<Rightarrow> (error + provider_error) + LLMResult" where
  "generate langchain_llm prompt n temperature stop callbacks is_async =
     (if is_async
      then agenerate_text langchain_llm prompt n temperature stop callbacks
      else generate_text langchain_llm prompt n temperature stop callbacks)"

subsection \<open>The retry policy around one call\<close>











section \<open>Cost accounting (ragas/llms/cost.py)\<close>

text \<open>
  \<open>sum(token_usages, start)\<close>: the usages are added to the start value from the left, and
  the first addition that raises ends the sum.
\<close>

fun sum_usages :: "error + TokenUsage \<Rightarrow> TokenUsage list \<Rightarrow> error + TokenUsage" where
  "sum_usages acc [] = acc"
| "sum_usages acc (u # us) = sum_usages (add_l acc u) us"

text \<open>
  The usage that one completion contributes in the second branch of \<open>parse_llm_result\<close>:
  only a \<open>ChatGeneration\<close> whose response metadata is not empty counts. The helper
  \<open>get_from_dict\<close> of \<open>ragas.utils\<close> is not among the sources and is a parameter: it reads
  the integer at a dotted path of a dict, or gives the default.
\<close>

definition generation_usage ::
  "((string \<times> json) list \<Rightarrow> string \<Rightarrow> int \<Rightarrow> int) \<Rightarrow> generation \<Rightarrow> TokenUsage list" where
  "generation_usage get_from_dict g =
     (case g of
        ChatGeneration text response_metadata \<Rightarrow>
          (if response_metadata \<noteq> []
           then [\<lparr>input_tokens = get_from_dict response_metadata ''usage.input_tokens'' 0,
                  output_tokens = get_from_dict response_metadata ''usage.output_tokens'' 0,
                  model = None\<rparr>]
           else [])
      | Generation text \<Rightarrow> [])"

text \<open>
  \<open>parse_llm_result\<close>, with its three branches in the order of the source: an output block
  that is neither empty nor \<open>None\<close>, an empty output block, and \<open>None\<close>. The \<open>print\<close> of the
  second branch is not modelled.
\<close>

definition parse_llm_result ::
  "((string \<times> json) list \<Rightarrow> string \<Rightarrow> int \<Rightarrow> int) \<Rightarrow> LLMResult \<Rightarrow> error + TokenUsage" where
  "parse_llm_result get_from_dict llm_result =
     (case llm_output llm_result of
        Some (kv # kvs) \<Rightarrow>
          Inr \<lparr>input_tokens = get_from_dict (kv # kvs) ''token_usage.input_tokens'' 0,
               output_tokens = get_from_dict (kv # kvs) ''token_usage.completion_tokens'' 0,
               model = None\<rparr>
      | Some [] \<Rightarrow>
          sum_usages (Inr \<lparr>input_tokens = 0, output_tokens = 0, model = None\<rparr>)
            (concat (map (generation_usage get_from_dict) (concat (generations llm_result))))
      | None \<Rightarrow> Inr \<lparr>input_tokens = 0, output_tokens = 0, model = None\<rparr>)"

text \<open>
  \<open>CostCallbackHandler\<close>: the constructor, \<open>on_llm_end\<close>, whose body is \<open>pass\<close>, and
  \<open>get_usage_data\<close>.
\<close>

record CostCallbackHandler =
  usage_data :: "TokenUsage list"
  llm_result_parser :: "LLMResult \<Rightarrow> error + TokenUsage"

definition CostCallbackHandler_init ::
  "((string \<times> json) list \<Rightarrow> string \<Rightarrow> int \<Rightarrow> int) \<Rightarrow> CostCallbackHandler" where
  "CostCallbackHandler_init get_from_dict =
     \<lparr>usage_data = [], llm_result_parser = parse_llm_result get_from_dict\<rparr>"

definition on_llm_end :: "CostCallbackHandler \<Rightarrow> LLMResult \<Rightarrow> CostCallbackHandler" where
  "on_llm_end self response = self"

definition get_usage_data :: "CostCallbackHandler \<Rightarrow> TokenUsage list" where
  "get_usage_data self = usage_data self"

text \<open>
  The observer in the words of the specification: the usage parsed from the response is
  appended to the running data.
\<close>

definition spec_on_llm_end ::
  "CostCallbackHandler \<Rightarrow> LLMResult \<Rightarrow> error + CostCallbackHandler" where
  "spec_on_llm_end self response =
     (case llm_result_parser self response of
        Inl e \<Rightarrow> Inl e
      | Inr u \<Rightarrow> Inr (self\<lparr>usage_data := usage_data self @ [u]\<rparr>))"

section \<open>Evaluator chain (ragas/langchain/evalchain.py)\<close>

text \<open>
  The evaluation modes that the sources name are \<open>qac\<close>, \<open>qc\<close> and \<open>qcg\<close>; the enumeration
  itself is declared in \<open>ragas.metrics.base\<close>, and its other members are \<open>mode_other\<close>.
\<close>

datatype EvaluationMode = qac | qc | qcg | mode_other string

record Metric =
  name :: string
  evaluation_mode :: EvaluationMode

text \<open>
  A field of an example or of a prediction is a text or a list of documents, each
  document given by its \<open>page_content\<close>.
\<close>

datatype field_value = Text string | Documents "string list"

text \<open>Decimal digits of a length, as an f-string prints it.\<close>

fun str_nat :: "nat \<Rightarrow> string" where
  "str_nat n =
     (if n < 10 then [char_of (48 + n)]
      else str_nat (n div 10) @ [char_of (48 + n mod 10)])"

text \<open>
  \<open>_validate\<close>. The table \<open>EVALMODE_TO_COLUMNS\<close> of \<open>ragas.validation\<close> is not among the
  sources and is a parameter; a mode without an entry raises \<open>KeyError\<close>.
\<close>

definition validate ::
  "(EvaluationMode \<rightharpoonup> string list) \<Rightarrow> Metric \<Rightarrow> (string \<rightharpoonup> field_value)
     \<Rightarrow> string \<Rightarrow> string \<Rightarrow> string \<Rightarrow> error + unit" where
  "validate EVALMODE_TO_COLUMNS metric input question_key prediction_key context_key =
     (case EVALMODE_TO_COLUMNS (evaluation_mode metric) of
        None \<Rightarrow> Inl (KeyError ''evaluation_mode'')
      | Some required_columns \<Rightarrow>
          (if ''question'' \<in> set required_columns \<and> input question_key = None
           then Inl (ValueError ([CHR 0x22] @ question_key @ [CHR 0x22]
                      @ '' is required in each example''
                      @ ''for the metric['' @ name metric @ ''] you have chosen.''))
           else if ''answer'' \<in> set required_columns \<and> input prediction_key = None
           then Inl (ValueError ([CHR 0x22] @ prediction_key @ [CHR 0x22]
                      @ '' is required in each prediction''
                      @ ''for the metric['' @ name metric @ ''] you have chosen.''))
           else if ''contexts'' \<in> set required_columns \<and> input context_key = None
           then Inl (ValueError ([CHR 0x22] @ context_key @ [CHR 0x22]
                      @ '' is required in each prediction for the ''
                      @ ''metric['' @ name metric @ ''] you have chosen.''))
           else Inr ()))"

text \<open>
  \<open>[d.page_content for d in v]\<close>: the elements of a text are characters, which have no
  \<open>page_content\<close>.
\<close>

definition page_contents :: "field_value \<Rightarrow> error + string list" where
  "page_contents v =
     (case v of
        Documents ds \<Rightarrow> Inr ds
      | Text s \<Rightarrow> (if s = [] then Inr [] else Inl AttributeError))"

text \<open>
  The loop of \<open>evaluate\<close> over \<open>enumerate(examples)\<close>, from index \<open>i\<close> on, with the three
  columns collected so far.
\<close>

fun evaluate_rows ::
  "(EvaluationMode \<rightharpoonup> string list) \<Rightarrow> Metric \<Rightarrow> string \<Rightarrow> string \<Rightarrow> string
     \<Rightarrow> (string \<rightharpoonup> field_value) list \<Rightarrow> nat \<Rightarrow> (string \<rightharpoonup> field_value) list
     \<Rightarrow> field_value list \<times> field_value list \<times> string list list
     \<Rightarrow> error + field_value list \<times> field_value list \<times> string list list" where
  "evaluate_rows C metric question_key prediction_key context_key predictions i [] cols =
     Inr cols"
| "evaluate_rows C metric question_key prediction_key context_key predictions i
     (example # rest) (question, answer, contexts) =
     (if length predictions \<le> i then Inl IndexError
      else case validate C metric (example ++ (predictions ! i))
                  question_key prediction_key context_key of
             Inl e \<Rightarrow> Inl e
           | Inr _ \<Rightarrow>
               (case example question_key of
                  None \<Rightarrow> Inl (KeyError question_key)
                | Some q \<Rightarrow>
                    (case (predictions ! i) prediction_key of
                       None \<Rightarrow> Inl (KeyError prediction_key)
                     | Some a \<Rightarrow>
                         (if evaluation_mode metric = qac \<or> evaluation_mode metric = qc
                          then (case (predictions ! i) context_key of
                                  None \<Rightarrow> Inl (KeyError context_key)
                                | Some docs \<Rightarrow>
                                    (case page_contents docs of
                                       Inl e \<Rightarrow> Inl e
                                     | Inr cs \<Rightarrow>
                                         evaluate_rows C metric question_key prediction_key
                                           context_key predictions (Suc i) rest
                                           (question @ [q], answer @ [a], contexts @ [cs])))
                          else evaluate_rows C metric question_key prediction_key
                                 context_key predictions (Suc i) rest
                                 (question @ [q], answer @ [a], contexts)))))"

text \<open>
  \<open>RagasEvaluatorChain.evaluate\<close>. The parameter \<open>score\<close> stands for
  \<open>self.metric.score(Dataset.from_dict(...), callbacks=callbacks)\<close>, which is where the
  model is called: it takes the three columns and the state of the outside world (for
  instance the log of model calls) and returns the scores, or an exception, and the new
  state. The result pairs what \<open>evaluate\<close> returns or raises with the state it leaves.
\<close>

definition evaluate ::
  "(EvaluationMode \<rightharpoonup> string list)
     \<Rightarrow> (field_value list \<times> field_value list \<times> string list list \<Rightarrow> 's
           \<Rightarrow> (error + number list) \<times> 's)
     \<Rightarrow> Metric \<Rightarrow> (string \<rightharpoonup> field_value) list \<Rightarrow> (string \<rightharpoonup> field_value) list
     \<Rightarrow> string \<Rightarrow> string \<Rightarrow> string \<Rightarrow> 's
     \<Rightarrow> (error + (string \<times> number) list list) \<times> 's" where
  "evaluate C score metric examples predictions question_key prediction_key context_key s =
     (if length examples \<noteq> length predictions
      then (Inl (ValueError (''number of examples and predictions must be same. Got ''
                   @ ''len(examples)='' @ str_nat (length examples)
                   @ '' and len(predictions)='' @ str_nat (length predictions))), s)
      else case evaluate_rows C metric question_key prediction_key context_key
                  predictions 0 examples ([], [], []) of
             Inl e \<Rightarrow> (Inl e, s)
           | Inr dataset \<Rightarrow>
               (case score dataset s of
                  (Inl e, s') \<Rightarrow> (Inl e, s')
                | (Inr scores, s') \<Rightarrow>
                    (Inr (map (\<lambda>sc. [(name metric @ ''_score'', sc)]) scores), s')))"

section \<open>Properties of token usage\<close>

declare str_nat.simps [simp del]

lemma TokenUsage_add_commute: "TokenUsage_add u v = TokenUsage_add v u"
  by (auto simp: TokenUsage_add_def)

lemma TokenUsage_add_unset:
  "model u = None \<Longrightarrow> model v = None \<Longrightarrow>
   TokenUsage_add u v = Inr \<lparr>input_tokens = input_tokens u + input_tokens v,
                             output_tokens = output_tokens u + output_tokens v,
                             model = None\<rparr>"
  by (simp add: TokenUsage_add_def)

lemma TokenUsage_add_differing:
  "model u = Some a \<Longrightarrow> model v = Some b \<Longrightarrow> a \<noteq> b \<Longrightarrow>
   TokenUsage_add u v = Inl (ValueError ''Cannot add TokenUsage objects with different models'')"
  by (simp add: TokenUsage_add_def)

lemma TokenUsage_add_assoc_unset:
  "model u = None \<Longrightarrow> model v = None \<Longrightarrow> model w = None \<Longrightarrow>
   add_l (TokenUsage_add u v) w = add_r u (TokenUsage_add v w)
   \<and> (\<exists>s. add_l (TokenUsage_add u v) w = Inr s)"
  by (simp add: TokenUsage_add_def add_l_def add_r_def)

text \<open>
  C1. The claim: addition of token usages is commutative and associative for operands that
  share one model identity, raises for two differing models, and succeeds when both models
  are unset. Commutativity, the error for differing models and the unset case hold
  (\<open>TokenUsage_add_commute\<close>, \<open>TokenUsage_add_differing\<close>, \<open>TokenUsage_add_unset\<close>), and
  so does associativity for unset models (\<open>TokenUsage_add_assoc_unset\<close>). For three
  usages of the same named model the code does not add up: the first sum has lost the
  model, and adding the third operand raises, in either grouping.
\<close>

theorem TokenUsage_add_same_model_triple_raises:
  "add_l (TokenUsage_add \<lparr>input_tokens = 1, output_tokens = 2, model = Some ''m''\<rparr>
                          \<lparr>input_tokens = 3, output_tokens = 4, model = Some ''m''\<rparr>)
         \<lparr>input_tokens = 5, output_tokens = 6, model = Some ''m''\<rparr>
     = Inl (ValueError ''Cannot add TokenUsage objects with different models'')
   \<and> add_r \<lparr>input_tokens = 1, output_tokens = 2, model = Some ''m''\<rparr>
        (TokenUsage_add \<lparr>input_tokens = 3, output_tokens = 4, model = Some ''m''\<rparr>
                        \<lparr>input_tokens = 5, output_tokens = 6, model = Some ''m''\<rparr>)
     = Inl (ValueError ''Cannot add TokenUsage objects with different models'')"
  by (simp add: TokenUsage_add_def add_l_def add_r_def)

text \<open>
  C10. For two usages \<open>u\<close> and \<open>v\<close> of the same named model, \<open>u + v\<close> succeeds, carries the
  two sums of the token counts and has no model; adding a further usage \<open>w\<close> of that same
  model to the sum raises the error, on either side.
\<close>

theorem TokenUsage_add_drops_model:
  assumes "model u = Some m" and "model v = Some m" and "model w = Some m"
  shows "\<exists>s. TokenUsage_add u v = Inr s
           \<and> model s = None
           \<and> input_tokens s = input_tokens u + input_tokens v
           \<and> output_tokens s = output_tokens u + output_tokens v
           \<and> TokenUsage_add s w
               = Inl (ValueError ''Cannot add TokenUsage objects with different models'')
           \<and> TokenUsage_add w s
               = Inl (ValueError ''Cannot add TokenUsage objects with different models'')"
  using assms by (simp add: TokenUsage_add_def)

theorem TokenUsage_add_drops_model_witness:
  "\<exists>s. TokenUsage_add \<lparr>input_tokens = 1, output_tokens = 2, model = Some ''m''\<rparr>
                      \<lparr>input_tokens = 3, output_tokens = 4, model = Some ''m''\<rparr> = Inr s
     \<and> model s = None \<and> input_tokens s = 4 \<and> output_tokens s = 6
     \<and> TokenUsage_add s \<lparr>input_tokens = 5, output_tokens = 6, model = Some ''m''\<rparr>
         = Inl (ValueError ''Cannot add TokenUsage objects with different models'')
     \<and> TokenUsage_add \<lparr>input_tokens = 5, output_tokens = 6, model = Some ''m''\<rparr> s
         = Inl (ValueError ''Cannot add TokenUsage objects with different models'')"
  using TokenUsage_add_drops_model
    [of "\<lparr>input_tokens = 1, output_tokens = 2, model = Some ''m''\<rparr>" "''m''"
        "\<lparr>input_tokens = 3, output_tokens = 4, model = Some ''m''\<rparr>"
        "\<lparr>input_tokens = 5, output_tokens = 6, model = Some ''m''\<rparr>"]
  by simp

section \<open>Properties of the faithfulness score\<close>

lemma verdict_score_map_get:
  "map_get verdict_score_map t NaN
     = (if t = ''yes'' then Num 1 else if t = ''no'' then Num 0 else NaN)"
  by (simp add: map_get_def verdict_score_map_def)

lemma verdict_value_has_verdict:
  "has_verdict d s \<Longrightarrow>
   verdict_value d
     = Inr (if lower s = ''yes'' then Num 1 else if lower s = ''no'' then Num 0 else NaN)"
proof -
  assume h: "has_verdict d s"
  have "verdict_value d = Inr (map_get verdict_score_map (lower s) NaN)"
    using h
    by (auto simp: has_verdict_def verdict_value_def lower_def map_get_def [of "map_of kvs" for kvs]
             split: json.splits option.splits)
  then show ?thesis
    by (simp only: verdict_score_map_get)
qed

lemma sum_verdicts_NaN:
  "list_all2 has_verdict items vs \<Longrightarrow> sum_verdicts NaN items = Inr NaN"
  by (induction items vs rule: list_all2_induct) (simp_all add: verdict_value_has_verdict)

lemma sum_verdicts_Num:
  "list_all2 has_verdict items vs \<Longrightarrow>
   sum_verdicts (Num a) items
     = Inr (if \<forall>s\<in>set vs. lower s = ''yes'' \<or> lower s = ''no''
            then Num (a + of_nat (length (filter (\<lambda>s. lower s = ''yes'') vs)))
            else NaN)"
proof (induction items vs arbitrary: a rule: list_all2_induct)
  case Nil
  show ?case by simp
next
  case (Cons d items s vs)
  have tail_NaN: "sum_verdicts NaN items = Inr NaN"
    using Cons.hyps(2) by (rule sum_verdicts_NaN)
  show ?case
    using Cons.hyps(1) Cons.IH tail_NaN
    by (simp add: verdict_value_has_verdict)
qed

lemma ascore_score_verdicts:
  assumes "list_all2 has_verdict items vs"
  shows "ascore_score (JArr items)
           = Inr (if vs \<noteq> [] \<and> (\<forall>s\<in>set vs. lower s = ''yes'' \<or> lower s = ''no'')
                  then Num (of_nat (length (filter (\<lambda>s. lower s = ''yes'') vs))
                            / of_nat (length vs))
                  else NaN)"
proof -
  have len: "length items = length vs"
    using assms by (rule list_all2_lengthD)
  show ?thesis
    using len by (auto simp: ascore_score_def sum_verdicts_Num [OF assms])
qed

lemma ascore_score_not_list:
  "(\<forall>xs. loaded \<noteq> JArr xs) \<Longrightarrow> ascore_score loaded = Inr NaN"
  by (cases loaded) (simp_all add: ascore_score_def)

text \<open>
  C2. The claim: the verdict text is mapped without regard to case (yes to 1, no to 0,
  anything else to undefined), the score is the sum over the number of verdicts returned,
  and a verdict that mapped to undefined adds 0 to the sum, so that the score is undefined
  only when no verdict could be read at all. The code does not count such a verdict as 0:
  it adds \<open>nan\<close>, and the score of the whole row is \<open>nan\<close>. For the verdicts Yes and Maybe
  the claim gives one half and the code gives \<open>nan\<close>.
\<close>

theorem Faithfulness_unrecognised_verdict_counterexample:
  "ascore_score
     (JArr [JObj [(''statement_1'', JStr ''a''), (''reason'', JStr ''r''), (''verdict'', JStr ''Yes'')],
            JObj [(''statement_2'', JStr ''b''), (''reason'', JStr ''r''), (''verdict'', JStr ''Maybe'')]])
     = Inr NaN
   \<and> spec_faithfulness_score [''Yes'', ''Maybe''] = Num (1 / 2)
   \<and> ascore_score
     (JArr [JObj [(''statement_1'', JStr ''a''), (''reason'', JStr ''r''), (''verdict'', JStr ''Yes'')],
            JObj [(''statement_2'', JStr ''b''), (''reason'', JStr ''r''), (''verdict'', JStr ''Maybe'')]])
     \<noteq> Inr (spec_faithfulness_score [''Yes'', ''Maybe''])"
  by code_simp

text \<open>
  C2, as amended. Let the loaded reply be a list of records whose verdicts read \<open>vs\<close>. Each
  record adds 1 when its verdict is yes, 0 when it is no (letter case ignored), and \<open>nan\<close>
  otherwise. When the list is not empty and every verdict is yes or no, the score is the
  number of yes verdicts over the number of verdicts; when some verdict is anything else,
  or the list is empty, the score is undefined. A reply that is not a list scores
  undefined as well.
\<close>

theorem Faithfulness_score_amended:
  assumes "list_all2 has_verdict items vs"
  shows "(\<forall>(d, s)\<in>set (zip items vs).
            verdict_value d
              = Inr (if lower s = ''yes'' then Num 1
                     else if lower s = ''no'' then Num 0 else NaN))
         \<and> ascore_score (JArr items)
             = Inr (if vs \<noteq> [] \<and> (\<forall>s\<in>set vs. lower s = ''yes'' \<or> lower s = ''no'')
                    then Num (of_nat (length (filter (\<lambda>s. lower s = ''yes'') vs))
                              / of_nat (length vs))
                    else NaN)
         \<and> (\<forall>loaded. (\<forall>xs. loaded \<noteq> JArr xs) \<longrightarrow> ascore_score loaded = Inr NaN)"
proof (intro conjI)
  show "\<forall>(d, s)\<in>set (zip items vs).
          verdict_value d
            = Inr (if lower s = ''yes'' then Num 1
                   else if lower s = ''no'' then Num 0 else NaN)"
  proof (intro ballI, clarify)
    fix d s
    assume "(d, s) \<in> set (zip items vs)"
    with assms have "has_verdict d s"
      by (auto simp: list_all2_iff)
    then show "verdict_value d
                 = Inr (if lower s = ''yes'' then Num 1
                        else if lower s = ''no'' then Num 0 else NaN)"
      by (rule verdict_value_has_verdict)
  qed
next
  show "ascore_score (JArr items)
          = Inr (if vs \<noteq> [] \<and> (\<forall>s\<in>set vs. lower s = ''yes'' \<or> lower s = ''no'')
                 then Num (of_nat (length (filter (\<lambda>s. lower s = ''yes'') vs))
                           / of_nat (length vs))
                 else NaN)"
    using assms by (rule ascore_score_verdicts)
next
  show "\<forall>loaded. (\<forall>xs. loaded \<noteq> JArr xs) \<longrightarrow> ascore_score loaded = Inr NaN"
    by (simp add: ascore_score_not_list)
qed

theorem Faithfulness_score_amended_witness:
  "list_all2 has_verdict
     [JObj [(''reason'', JStr ''r''), (''verdict'', JStr ''Yes'')],
      JObj [(''reason'', JStr ''r''), (''verdict'', JStr ''NO'')],
      JObj [(''verdict'', JStr ''yes''), (''reason'', JStr ''r'')]]
     [''Yes'', ''NO'', ''yes'']
   \<and> ascore_score
       (JArr [JObj [(''reason'', JStr ''r''), (''verdict'', JStr ''Yes'')],
              JObj [(''reason'', JStr ''r''), (''verdict'', JStr ''NO'')],
              JObj [(''verdict'', JStr ''yes''), (''reason'', JStr ''r'')]])
       = Inr (Num (2 / 3))
   \<and> ascore_score (JStr ''no json here'') = Inr NaN"
proof -
  have h: "list_all2 has_verdict
     [JObj [(''reason'', JStr ''r''), (''verdict'', JStr ''Yes'')],
      JObj [(''reason'', JStr ''r''), (''verdict'', JStr ''NO'')],
      JObj [(''verdict'', JStr ''yes''), (''reason'', JStr ''r'')]]
     [''Yes'', ''NO'', ''yes'']"
    by (simp add: has_verdict_def)
  have l1: "lower ''Yes'' = ''yes''" by code_simp
  have l2: "lower ''NO'' = ''no''" by code_simp
  have l3: "lower ''yes'' = ''yes''" by code_simp
  show ?thesis
    using h Faithfulness_score_amended [OF h] l1 l2 l3 by simp
qed

text \<open>
  C6. When the verification reply is a non-empty list of records whose verdicts all read
  yes, the score is 1; when they all read no, the score is 0; when the list is empty, the
  score is the undefined value \<open>nan\<close>, which is not 0.
\<close>

theorem Faithfulness_score_boundary:
  assumes "list_all2 has_verdict items vs" and "vs \<noteq> []"
  shows "((\<forall>s\<in>set vs. lower s = ''yes'') \<longrightarrow> ascore_score (JArr items) = Inr (Num 1))
         \<and> ((\<forall>s\<in>set vs. lower s = ''no'') \<longrightarrow> ascore_score (JArr items) = Inr (Num 0))
         \<and> ascore_score (JArr []) = Inr NaN
         \<and> Inr NaN \<noteq> (Inr (Num 0) :: error + number)"
proof (intro conjI impI)
  assume yes: "\<forall>s\<in>set vs. lower s = ''yes''"
  then have "filter (\<lambda>s. lower s = ''yes'') vs = vs"
    by (simp add: filter_id_conv)
  with yes assms(2) show "ascore_score (JArr items) = Inr (Num 1)"
    by (simp add: ascore_score_verdicts [OF assms(1)])
next
  assume no: "\<forall>s\<in>set vs. lower s = ''no''"
  then have "filter (\<lambda>s. lower s = ''yes'') vs = []"
    by (simp add: filter_empty_conv)
  with no assms(2) show "ascore_score (JArr items) = Inr (Num 0)"
    by (simp add: ascore_score_verdicts [OF assms(1)])
next
  show "ascore_score (JArr []) = Inr NaN"
    by (simp add: ascore_score_def)
next
  show "Inr NaN \<noteq> (Inr (Num 0) :: error + number)"
    by simp
qed

theorem Faithfulness_score_boundary_witness:
  "ascore_score (JArr [JObj [(''reason'', JStr ''r''), (''verdict'', JStr ''Yes'')],
                       JObj [(''reason'', JStr ''r''), (''verdict'', JStr ''YES'')]])
     = Inr (Num 1)
   \<and> ascore_score (JArr [JObj [(''reason'', JStr ''r''), (''verdict'', JStr ''No'')],
                         JObj [(''reason'', JStr ''r''), (''verdict'', JStr ''no'')]])
     = Inr (Num 0)
   \<and> ascore_score (JArr []) = Inr NaN"
proof -
  have hy: "list_all2 has_verdict
              [JObj [(''reason'', JStr ''r''), (''verdict'', JStr ''Yes'')],
               JObj [(''reason'', JStr ''r''), (''verdict'', JStr ''YES'')]]
              [''Yes'', ''YES'']"
    by (simp add: has_verdict_def)
  have hn: "list_all2 has_verdict
              [JObj [(''reason'', JStr ''r''), (''verdict'', JStr ''No'')],
               JObj [(''reason'', JStr ''r''), (''verdict'', JStr ''no'')]]
              [''No'', ''no'']"
    by (simp add: has_verdict_def)
  have ne1: "[''Yes'', ''YES''] \<noteq> []" by simp
  have ne2: "[''No'', ''no''] \<noteq> []" by simp
  have l1: "lower ''Yes'' = ''yes''" by code_simp
  have l2: "lower ''YES'' = ''yes''" by code_simp
  have l3: "lower ''No'' = ''no''" by code_simp
  have l4: "lower ''no'' = ''no''" by code_simp
  show ?thesis
    using Faithfulness_score_boundary [OF hy ne1] Faithfulness_score_boundary [OF hn ne2]
      l1 l2 l3 l4
    by simp
qed

section \<open>Properties of the context recall score\<close>

lemma sum_attributed:
  "sum_list (map (\<lambda>item. if attributed item then 1 else 0 :: int) answers)
     = int (length (filter attributed answers))"
  by (induction answers) simp_all

text \<open>
  C7. When the schema validation accepts the response, the score is the number of answers
  with \<open>attributed\<close> true over the number of answers, and it is the undefined value \<open>nan\<close>
  (with a warning logged) when there is no answer. When the validation fails, the score
  is \<open>nan\<close> and two warnings are logged; nothing is raised. The quotient is the exact
  rational.
\<close>

theorem ContextRecall_compute_score:
  "(parse_obj (classification_of response) = Inr answers \<longrightarrow>
      compute_score parse_obj response
        = (if answers = [] then (NaN, [NoValidClassification])
           else (Num (of_nat (length (filter attributed answers))
                      / of_nat (length answers)), [])))
   \<and> (parse_obj (classification_of response) = Inl err \<longrightarrow>
        compute_score parse_obj response
          = (NaN, [CouldNotParse (classification_of response), ParseError err]))"
  by (simp add: compute_score_def Let_def sum_attributed)

theorem ContextRecall_compute_score_witness:
  "compute_score
     (\<lambda>j. Inr [\<lparr>statement = ''a'', attributed = True, reason = ''r''\<rparr>,
               \<lparr>statement = ''b'', attributed = True, reason = ''r''\<rparr>,
               \<lparr>statement = ''c'', attributed = False, reason = ''r''\<rparr>,
               \<lparr>statement = ''d'', attributed = True, reason = ''r''\<rparr>])
     (JObj [(''classification'', JArr [])])
     = (Num (3 / 4), [])
   \<and> compute_score (\<lambda>j. Inl ''value is not a valid list'') (JStr ''oops'')
     = (NaN, [CouldNotParse (JStr ''oops''), ParseError ''value is not a valid list''])"
  using ContextRecall_compute_score
    [of "\<lambda>j. Inr [\<lparr>statement = ''a'', attributed = True, reason = ''r''\<rparr>,
                  \<lparr>statement = ''b'', attributed = True, reason = ''r''\<rparr>,
                  \<lparr>statement = ''c'', attributed = False, reason = ''r''\<rparr>,
                  \<lparr>statement = ''d'', attributed = True, reason = ''r''\<rparr>]"
        "JObj [(''classification'', JArr [])]"
        "[\<lparr>statement = ''a'', attributed = True, reason = ''r''\<rparr>,
          \<lparr>statement = ''b'', attributed = True, reason = ''r''\<rparr>,
          \<lparr>statement = ''c'', attributed = False, reason = ''r''\<rparr>,
          \<lparr>statement = ''d'', attributed = True, reason = ''r''\<rparr>]"
        "''e''"]
    ContextRecall_compute_score
    [of "\<lambda>j. Inl ''value is not a valid list''" "JStr ''oops''" "[]"
        "''value is not a valid list''"]
  by (simp add: classification_of_def)

section \<open>Properties of the language model wrapper\<close>

lemma first_of_each_nonempty:
  "\<forall>gs\<in>set gss. gs \<noteq> [] \<Longrightarrow> first_of_each gss = Inr (map hd gss)"
proof (induction gss)
  case Nil
  show ?case by simp
next
  case (Cons gs gss)
  then obtain g rest where "gs = g # rest"
    by (cases gs) auto
  with Cons show ?case by simp
qed

lemma repack_unsupported:
  assumes "\<forall>gs\<in>set (generations result). gs \<noteq> []"
  shows "repack False (Inr result)
           = Inr (result\<lparr>generations := [map hd (generations result)]\<rparr>)"
  using first_of_each_nonempty [OF assms] by (simp add: repack_def)


text \<open>
  C8. Whatever temperature the caller passes, \<open>generate_text\<close>, \<open>agenerate_text\<close> and
  \<open>generate\<close> call the provider with the temperature \<open>1e-8\<close> when \<open>n = 1\<close> and with \<open>0.3\<close>
  when \<open>n > 1\<close>, for every wrapped model: the call is the one written out below, in which
  the caller's temperature does not occur, and what the methods return is what comes of
  the provider's answer to that call.
\<close>

theorem temperature_policy:
  "(let supported = is_multiple_completion_supported llm;
        sent = (\<lambda>effective.
                  \<lparr>kw_prompts = (if supported then [prompt] else replicate (nat n) prompt),
                   kw_n = (if supported then Some n else None),
                   kw_temperature = effective,
                   kw_stop = stop,
                   kw_callbacks = callbacks\<rparr>)
    in (n = 1 \<longrightarrow>
          generate_text llm prompt n temperature stop callbacks
            = repack supported (generate_prompt llm (sent (1 / 10 ^ 8)))
          \<and> agenerate_text llm prompt n temperature stop callbacks
              = repack supported (agenerate_prompt llm (sent (1 / 10 ^ 8)))
          \<and> generate llm prompt n temperature stop callbacks is_async
              = repack supported
                  ((if is_async then agenerate_prompt llm else generate_prompt llm)
                     (sent (1 / 10 ^ 8))))
       \<and> (n > 1 \<longrightarrow>
            generate_text llm prompt n temperature stop callbacks
              = repack supported (generate_prompt llm (sent (3 / 10)))
            \<and> agenerate_text llm prompt n temperature stop callbacks
                = repack supported (agenerate_prompt llm (sent (3 / 10)))
            \<and> generate llm prompt n temperature stop callbacks is_async
                = repack supported
                    ((if is_async then agenerate_prompt llm else generate_prompt llm)
                       (sent (3 / 10)))))"
  by (simp add: generate_text_def agenerate_text_def generate_def request_kwargs_def
        get_temperature_def Let_def)

text \<open>
  The theorem at a provider that tells the temperatures apart: it answers \<open>cold\<close> to
  \<open>1e-8\<close>, \<open>warm\<close> to \<open>0.3\<close> and raises on any other temperature, such as the \<open>0.7\<close> that the
  caller passes here.
\<close>

theorem temperature_policy_witness:
  "generate_text
     \<lparr>classes = [''ChatOpenAI'', ''BaseChatModel''],
      generate_prompt =
        (\<lambda>kw. if kw_temperature kw = 1 / 10 ^ 8
               then Inr \<lparr>generations = [[Generation ''cold'']], llm_output = None, run = None\<rparr>
               else if kw_temperature kw = 3 / 10
               then Inr \<lparr>generations = [[Generation ''warm'']], llm_output = None, run = None\<rparr>
               else Inl (Inr (ProviderError ''temperature of the caller''))),
      agenerate_prompt =
        (\<lambda>kw. if kw_temperature kw = 1 / 10 ^ 8
               then Inr \<lparr>generations = [[Generation ''cold'']], llm_output = None, run = None\<rparr>
               else if kw_temperature kw = 3 / 10
               then Inr \<lparr>generations = [[Generation ''warm'']], llm_output = None, run = None\<rparr>
               else Inl (Inr (ProviderError ''temperature of the caller'')))\<rparr>
     ''p'' 1 (7 / 10) None None
     = Inr \<lparr>generations = [[Generation ''cold'']], llm_output = None, run = None\<rparr>
   \<and> agenerate_text
       \<lparr>classes = [''ChatOpenAI'', ''BaseChatModel''],
        generate_prompt =
          (\<lambda>kw. if kw_temperature kw = 1 / 10 ^ 8
                 then Inr \<lparr>generations = [[Generation ''cold'']], llm_output = None, run = None\<rparr>
                 else if kw_temperature kw = 3 / 10
                 then Inr \<lparr>generations = [[Generation ''warm'']], llm_output = None, run = None\<rparr>
                 else Inl (Inr (ProviderError ''temperature of the caller''))),
        agenerate_prompt =
          (\<lambda>kw. if kw_temperature kw = 1 / 10 ^ 8
                 then Inr \<lparr>generations = [[Generation ''cold'']], llm_output = None, run = None\<rparr>
                 else if kw_temperature kw = 3 / 10
                 then Inr \<lparr>generations = [[Generation ''warm'']], llm_output = None, run = None\<rparr>
                 else Inl (Inr (ProviderError ''temperature of the caller'')))\<rparr>
       ''p'' 5 (7 / 10) None None
       = Inr \<lparr>generations = [[Generation ''warm'']], llm_output = None, run = None\<rparr>"
proof -
  let ?llm = "\<lparr>classes = [''ChatOpenAI'', ''BaseChatModel''],
      generate_prompt =
        (\<lambda>kw. if kw_temperature kw = 1 / 10 ^ 8
               then Inr \<lparr>generations = [[Generation ''cold'']], llm_output = None, run = None\<rparr>
               else if kw_temperature kw = 3 / 10
               then Inr \<lparr>generations = [[Generation ''warm'']], llm_output = None, run = None\<rparr>
               else Inl (Inr (ProviderError ''temperature of the caller''))),
      agenerate_prompt =
        (\<lambda>kw. if kw_temperature kw = 1 / 10 ^ 8
               then Inr \<lparr>generations = [[Generation ''cold'']], llm_output = None, run = None\<rparr>
               else if kw_temperature kw = 3 / 10
               then Inr \<lparr>generations = [[Generation ''warm'']], llm_output = None, run = None\<rparr>
               else Inl (Inr (ProviderError ''temperature of the caller'')))\<rparr>"
  have supported: "is_multiple_completion_supported ?llm"
    by (simp add: is_multiple_completion_supported_def MULTIPLE_COMPLETION_SUPPORTED_def
          isinstance_def)
  have cold: "generate_text ?llm ''p'' 1 (7 / 10) None None
                = Inr \<lparr>generations = [[Generation ''cold'']], llm_output = None, run = None\<rparr>"
    using supported
      temperature_policy
        [where llm = ?llm and n = 1 and prompt = "''p''" and temperature = "7 / 10"
           and stop = None and callbacks = None]
    by (simp add: Let_def repack_def)
  have warm: "agenerate_text ?llm ''p'' 5 (7 / 10) None None
                = Inr \<lparr>generations = [[Generation ''warm'']], llm_output = None, run = None\<rparr>"
    using supported
      temperature_policy
        [where llm = ?llm and n = 5 and prompt = "''p''" and temperature = "7 / 10"
           and stop = None and callbacks = None]
    by (simp add: Let_def repack_def)
  from cold warm show ?thesis by blast
qed

text \<open>
  C5. For a model that is not on the list of classes with native multi-sample support and
  for \<open>n \<ge> 1\<close>, the request holds \<open>n\<close> copies of the prompt and no \<open>n\<close>. When the provider
  answers it with one non-empty list of completions for each prompt, \<open>generate_text\<close>
  (and \<open>agenerate_text\<close>, on the asynchronous entry point) returns a result whose
  \<open>generations\<close> has exactly one list, of exactly \<open>n\<close> completions, the first of each
  per-prompt list; the runs and the output block of the provider's result are kept.
\<close>

theorem unsupported_model_repacks:
  assumes "\<not> is_multiple_completion_supported llm"
    and "1 \<le> n"
    and "length (generations result) = nat n"
    and "\<forall>gs\<in>set (generations result). gs \<noteq> []"
  shows "request_kwargs False prompt n temperature stop callbacks
           = \<lparr>kw_prompts = replicate (nat n) prompt, kw_n = None,
              kw_temperature = get_temperature n, kw_stop = stop,
              kw_callbacks = callbacks\<rparr>
         \<and> (generate_prompt llm (request_kwargs False prompt n temperature stop callbacks)
              = Inr result \<longrightarrow>
            (\<exists>r. generate_text llm prompt n temperature stop callbacks = Inr r
                 \<and> length (generations r) = 1
                 \<and> length (hd (generations r)) = nat n
                 \<and> generations r = [map hd (generations result)]
                 \<and> run r = run result
                 \<and> llm_output r = llm_output result))
         \<and> (agenerate_prompt llm (request_kwargs False prompt n temperature stop callbacks)
              = Inr result \<longrightarrow>
            (\<exists>r. agenerate_text llm prompt n temperature stop callbacks = Inr r
                 \<and> length (generations r) = 1
                 \<and> length (hd (generations r)) = nat n
                 \<and> generations r = [map hd (generations result)]
                 \<and> run r = run result
                 \<and> llm_output r = llm_output result))"
proof (intro conjI impI)
  show "request_kwargs False prompt n temperature stop callbacks
          = \<lparr>kw_prompts = replicate (nat n) prompt, kw_n = None,
             kw_temperature = get_temperature n, kw_stop = stop,
             kw_callbacks = callbacks\<rparr>"
    by (simp add: request_kwargs_def)
next
  assume "generate_prompt llm (request_kwargs False prompt n temperature stop callbacks)
            = Inr result"
  then have "generate_text llm prompt n temperature stop callbacks
               = Inr (result\<lparr>generations := [map hd (generations result)]\<rparr>)"
    using assms(1) repack_unsupported [OF assms(4)] by (simp add: generate_text_def)
  then show "\<exists>r. generate_text llm prompt n temperature stop callbacks = Inr r
                 \<and> length (generations r) = 1
                 \<and> length (hd (generations r)) = nat n
                 \<and> generations r = [map hd (generations result)]
                 \<and> run r = run result
                 \<and> llm_output r = llm_output result"
    using assms(3) by simp
next
  assume "agenerate_prompt llm (request_kwargs False prompt n temperature stop callbacks)
            = Inr result"
  then have "agenerate_text llm prompt n temperature stop callbacks
               = Inr (result\<lparr>generations := [map hd (generations result)]\<rparr>)"
    using assms(1) repack_unsupported [OF assms(4)] by (simp add: agenerate_text_def)
  then show "\<exists>r. agenerate_text llm prompt n temperature stop callbacks = Inr r
                 \<and> length (generations r) = 1
                 \<and> length (hd (generations r)) = nat n
                 \<and> generations r = [map hd (generations result)]
                 \<and> run r = run result
                 \<and> llm_output r = llm_output result"
    using assms(3) by simp
qed

theorem unsupported_model_repacks_witness:
  "\<not> is_multiple_completion_supported
       \<lparr>classes = [''ChatAnthropic'', ''BaseChatModel''],
        generate_prompt = (\<lambda>kw. Inr \<lparr>generations = map (\<lambda>p. [ChatGeneration p []]) (kw_prompts kw),
                                      llm_output = Some [],
                                      run = Some (map (\<lambda>p. ''run'') (kw_prompts kw))\<rparr>),
        agenerate_prompt = (\<lambda>kw. Inl (Inr (ProviderError ''no event loop'')))\<rparr>
   \<and> (\<exists>r. generate_text
            \<lparr>classes = [''ChatAnthropic'', ''BaseChatModel''],
             generate_prompt = (\<lambda>kw. Inr \<lparr>generations = map (\<lambda>p. [ChatGeneration p []]) (kw_prompts kw),
                                           llm_output = Some [],
                                           run = Some (map (\<lambda>p. ''run'') (kw_prompts kw))\<rparr>),
             agenerate_prompt = (\<lambda>kw. Inl (Inr (ProviderError ''no event loop'')))\<rparr>
            ''p'' 3 (7 / 10) None None = Inr r
          \<and> length (generations r) = 1
          \<and> length (hd (generations r)) = 3
          \<and> run r = Some [''run'', ''run'', ''run''])"
proof -
  let ?llm = "\<lparr>classes = [''ChatAnthropic'', ''BaseChatModel''],
        generate_prompt = (\<lambda>kw. Inr \<lparr>generations = map (\<lambda>p. [ChatGeneration p []]) (kw_prompts kw),
                                      llm_output = Some [],
                                      run = Some (map (\<lambda>p. ''run'') (kw_prompts kw))\<rparr>),
        agenerate_prompt = (\<lambda>kw. Inl (Inr (ProviderError ''no event loop'')))\<rparr>"
  let ?result = "\<lparr>generations = [[ChatGeneration ''p'' []], [ChatGeneration ''p'' []],
                                  [ChatGeneration ''p'' []]],
                   llm_output = Some [],
                   run = Some [''run'', ''run'', ''run'']\<rparr>"
  have unsupported: "\<not> is_multiple_completion_supported ?llm"
    by (simp add: is_multiple_completion_supported_def MULTIPLE_COMPLETION_SUPPORTED_def
          isinstance_def)
  have n: "(1::int) \<le> 3" by simp
  have len: "length (generations ?result) = nat 3" by simp
  have nonempty: "\<forall>gs\<in>set (generations ?result). gs \<noteq> []" by simp
  have answer: "generate_prompt ?llm (request_kwargs False ''p'' 3 (7 / 10) None None)
                  = Inr ?result"
    by (simp add: request_kwargs_def eval_nat_numeral)
  show ?thesis
    using unsupported answer
      unsupported_model_repacks [OF unsupported n len nonempty,
        of "''p''" "7 / 10" None None]
    by auto
qed

subsection \<open>The retry policy\<close>








section \<open>Properties of the evaluator chain\<close>

text \<open>
  C9. When the numbers of examples and of predictions differ, \<open>evaluate\<close> raises the
  \<open>ValueError\<close> that reports both lengths, and the state of the outside world is the one
  it started from: whatever the scoring function (where the model is called) would do, it
  is not run.
\<close>

theorem evaluate_length_mismatch:
  assumes "length examples \<noteq> length predictions"
  shows "evaluate C score metric examples predictions question_key prediction_key context_key s
           = (Inl (ValueError (''number of examples and predictions must be same. Got ''
                      @ ''len(examples)='' @ str_nat (length examples)
                      @ '' and len(predictions)='' @ str_nat (length predictions))), s)"
  using assms by (simp add: evaluate_def)

theorem evaluate_length_mismatch_witness:
  "evaluate
     (\<lambda>m. Some [''question'', ''answer'', ''contexts''])
     (\<lambda>dataset calls. (Inr [Num 1, Num 1, Num 1, Num 1, Num 1], Suc calls))
     \<lparr>name = ''faithfulness'', evaluation_mode = qac\<rparr>
     [[''query'' \<mapsto> Text ''q1''], [''query'' \<mapsto> Text ''q2''], [''query'' \<mapsto> Text ''q3''],
      [''query'' \<mapsto> Text ''q4''], [''query'' \<mapsto> Text ''q5'']]
     [[''result'' \<mapsto> Text ''a1''], [''result'' \<mapsto> Text ''a2''], [''result'' \<mapsto> Text ''a3''],
      [''result'' \<mapsto> Text ''a4'']]
     ''query'' ''result'' ''source_documents'' (0::nat)
   = (Inl (ValueError (''number of examples and predictions must be same. Got ''
              @ ''len(examples)=5 and len(predictions)=4'')), 0)"
proof -
  have five: "str_nat (Suc (Suc (Suc (Suc (Suc 0))))) = ''5''" by code_simp
  have four: "str_nat (Suc (Suc (Suc (Suc 0)))) = ''4''" by code_simp
  have differ:
    "length [[''query'' \<mapsto> Text ''q1''], [''query'' \<mapsto> Text ''q2''], [''query'' \<mapsto> Text ''q3''],
             [''query'' \<mapsto> Text ''q4''], [''query'' \<mapsto> Text ''q5'']]
       \<noteq> length [[''result'' \<mapsto> Text ''a1''], [''result'' \<mapsto> Text ''a2''],
                 [''result'' \<mapsto> Text ''a3''], [''result'' \<mapsto> Text ''a4'']]"
    by simp
  show ?thesis
    using evaluate_length_mismatch [OF differ,
        of "\<lambda>m. Some [''question'', ''answer'', ''contexts'']"
           "\<lambda>dataset calls. (Inr [Num 1, Num 1, Num 1, Num 1, Num 1], Suc calls)"
           "\<lparr>name = ''faithfulness'', evaluation_mode = qac\<rparr>"
           "''query''" "''result''" "''source_documents''" "0::nat"]
      five four
    by simp
qed

section \<open>Properties of the cost accounting\<close>

lemma on_llm_end_keeps_usage_data:
  "get_usage_data (on_llm_end self response) = get_usage_data self"
  by (simp add: on_llm_end_def)

lemma parse_llm_result_no_output:
  "llm_output llm_result = None \<Longrightarrow>
   parse_llm_result get_from_dict llm_result
     = Inr \<lparr>input_tokens = 0, output_tokens = 0, model = None\<rparr>"
  by (simp add: parse_llm_result_def)

text \<open>
  C3. The claim: for every completion result the observer is notified of, it extracts the
  usage (the aggregate block, else the sum over the completions, else zero) and appends
  it to its running usage data. \<open>parse_llm_result\<close> does extract the usage in that order,
  and the handler stores it as its parser, but \<open>on_llm_end\<close> does nothing: for a response
  without an output block the parser gives the zero usage, the observer of the claim
  would hold that one entry, and the handler of the code still holds none.
\<close>

theorem on_llm_end_appends_nothing:
  "\<forall>get_from_dict.
     llm_result_parser (CostCallbackHandler_init get_from_dict)
         \<lparr>generations = [[Generation ''hello'']], llm_output = None, run = None\<rparr>
       = Inr \<lparr>input_tokens = 0, output_tokens = 0, model = None\<rparr>
     \<and> get_usage_data
         (on_llm_end (CostCallbackHandler_init get_from_dict)
            \<lparr>generations = [[Generation ''hello'']], llm_output = None, run = None\<rparr>)
       = []
     \<and> (\<exists>h. spec_on_llm_end (CostCallbackHandler_init get_from_dict)
                \<lparr>generations = [[Generation ''hello'']], llm_output = None, run = None\<rparr>
              = Inr h
            \<and> get_usage_data h = [\<lparr>input_tokens = 0, output_tokens = 0, model = None\<rparr>])"
  by (simp add: CostCallbackHandler_init_def on_llm_end_def get_usage_data_def
        spec_on_llm_end_def parse_llm_result_def)

end
